theory Spec2Isabelle
  imports Complex_Main
begin

section \<open>JavaScript values\<close>

text \<open>
  The program is \<^verbatim>\<open>src/server.js\<close>: an Express application with a CORS gate, a
  payment-intent handler and a webhook handler. The values its handlers see are what
  \<^verbatim>\<open>JSON.parse\<close> produces, plus \<^verbatim>\<open>undefined\<close> for a property that is absent.

  A JavaScript number is an IEEE double. Every finite double is a rational number and
  the program only classifies and compares numbers (it never does arithmetic on them), so
  a finite number is modelled by its exact rational value; \<open>-0\<close> is \<open>Finite 0\<close>. The
  three non-finite numbers are constructors of their own.

  An object is the list of its own properties in enumeration order, with distinct keys.
  Strings are described with the operations on them, below.
\<close>

datatype jsnumber = NaN | PosInfinity | NegInfinity | Finite rat

datatype jsvalue =
    JUndefined
  | JNull
  | JBool bool
  | JNumber jsnumber
  | JString string
  | JArray "jsvalue list"
  | JObject "(string \<times> jsvalue) list"

text \<open>A thrown \<^verbatim>\<open>Error\<close> object: its constructor's name and its \<^verbatim>\<open>message\<close>.\<close>

datatype exn = Exn (exn_name: string) (message: string)

definition TypeError :: "string \<Rightarrow> exn" where
  "TypeError msg = Exn ''TypeError'' msg"

text \<open>
  A computation that may throw returns \<open>exn + 'a\<close>; \<open>Inl\<close> is the exception.
  \<open>try_bind\<close> sequences two of them: the second does not run when the first throws.
\<close>

definition try_bind :: "exn + 'a \<Rightarrow> ('a \<Rightarrow> exn + 'b) \<Rightarrow> exn + 'b" where
  "try_bind m f = (case m of Inl e \<Rightarrow> Inl e | Inr x \<Rightarrow> f x)"

text \<open>\<^verbatim>\<open>ToBoolean\<close>: the falsy values are undefined, null, false, 0, NaN and the empty string.\<close>

fun ToBoolean :: "jsvalue \<Rightarrow> bool" where
  "ToBoolean JUndefined = False"
| "ToBoolean JNull = False"
| "ToBoolean (JBool b) = b"
| "ToBoolean (JNumber NaN) = False"
| "ToBoolean (JNumber (Finite q)) = (q \<noteq> 0)"
| "ToBoolean (JNumber _) = True"
| "ToBoolean (JString s) = (s \<noteq> [])"
| "ToBoolean (JArray _) = True"
| "ToBoolean (JObject _) = True"

fun nullish :: "jsvalue \<Rightarrow> bool" where
  "nullish JUndefined = True"
| "nullish JNull = True"
| "nullish _ = False"

text \<open>
  Property read \<^verbatim>\<open>v.k\<close>, for the property names the program reads (\<^verbatim>\<open>amountInCents\<close>,
  \<^verbatim>\<open>currency\<close>, \<^verbatim>\<open>metadata\<close>, \<^verbatim>\<open>type\<close>, \<^verbatim>\<open>data\<close>, \<^verbatim>\<open>object\<close>, \<^verbatim>\<open>last_payment_error\<close>,
  \<^verbatim>\<open>message\<close>): none of them is inherited from a prototype, so the read finds an own
  property of an object or yields undefined. Reading a property of undefined or null
  throws a TypeError.
\<close>

fun Get :: "jsvalue \<Rightarrow> string \<Rightarrow> exn + jsvalue" where
  "Get JUndefined k = Inl (TypeError (''Cannot read properties of undefined (reading '' @ k @ '')''))"
| "Get JNull k = Inl (TypeError (''Cannot read properties of null (reading '' @ k @ '')''))"
| "Get (JObject kvs) k = Inr (case map_of kvs k of None \<Rightarrow> JUndefined | Some v \<Rightarrow> v)"
| "Get _ k = Inr JUndefined"

section \<open>Amount validation\<close>

text \<open>
  \<^verbatim>\<open>Number.isInteger(v)\<close>: true exactly for a finite number with no fractional part;
  false for every value that is not a number (no coercion).
\<close>

fun Number_isInteger :: "jsvalue \<Rightarrow> bool" where
  "Number_isInteger (JNumber (Finite q)) = (of_int \<lfloor>q\<rfloor> = q)"
| "Number_isInteger _ = False"

text \<open>The comparisons \<^verbatim>\<open>n > c\<close> and \<^verbatim>\<open>n <= c\<close> of a number with a finite constant.\<close>

fun number_gt :: "jsnumber \<Rightarrow> rat \<Rightarrow> bool" where
  "number_gt NaN c = False"
| "number_gt PosInfinity c = True"
| "number_gt NegInfinity c = False"
| "number_gt (Finite q) c = (q > c)"

fun number_le :: "jsnumber \<Rightarrow> rat \<Rightarrow> bool" where
  "number_le NaN c = False"
| "number_le PosInfinity c = False"
| "number_le NegInfinity c = True"
| "number_le (Finite q) c = (q \<le> c)"

text \<open>
  \<^verbatim>\<open>return Number.isInteger(v) && v > 0 && v <= 5_000_00_00;\<close>
  The numeric separators group the digits of 50000000 (fifty million cents, the
  \<^verbatim>\<open>$500k\<close> of the source's comment). For a value that is not a number
  \<^verbatim>\<open>Number.isInteger(v)\<close> is false and \<^verbatim>\<open>&&\<close> stops there: the comparisons are reached
  only for a number.
\<close>

fun isValidAmount :: "jsvalue \<Rightarrow> bool" where
  "isValidAmount (JNumber n) =
     (Number_isInteger (JNumber n) \<and> number_gt n 0 \<and> number_le n 50000000)"
| "isValidAmount v = False"

section \<open>Strings\<close>

text \<open>
  A JavaScript string is modelled by a \<open>string\<close>. A character below 128 is the ASCII
  character of that code; a character outside ASCII is its UTF-8 bytes, each of them 128
  or above, so that two different JavaScript strings stay different and the ASCII
  characters of a string stay visible. The program compares strings, joins them and
  splits them at commas, and these agree with JavaScript on that representation.

  Two operations depend on the Unicode character tables when a string has a character
  outside ASCII: its lower case, and its UTF-16 code units (the elements JavaScript
  counts and indexes). The tables are no part of the source: they are the parameter
  \<open>uni\<close>, and the model consults it for such a string as a whole.
\<close>

record unicode =
  lower_case :: "string \<Rightarrow> string"
  code_units :: "string \<Rightarrow> string list"

definition ascii :: "string \<Rightarrow> bool" where
  "ascii s = list_all (\<lambda>ch. (of_char ch :: nat) < 128) s"

text \<open>
  \<^verbatim>\<open>String.prototype.toLowerCase\<close>. In a string of ASCII characters the letters \<open>A\<close> to
  \<open>Z\<close> (codes 65 to 90) become \<open>a\<close> to \<open>z\<close> (32 more) and every other character stays;
  no rule of Unicode that looks at the neighbours of a character applies to such a
  string. The lower case of any other string is what the tables say.
\<close>

definition lower_char :: "char \<Rightarrow> char" where
  "lower_char c =
     (let n = (of_char c :: nat) in if 65 \<le> n \<and> n \<le> 90 then char_of (n + 32) else c)"

definition toLowerCase :: "unicode \<Rightarrow> string \<Rightarrow> string" where
  "toLowerCase uni s = (if ascii s then map lower_char s else lower_case uni s)"

text \<open>
  The elements of a string, each a string of its own: the characters of an ASCII string,
  the UTF-16 code units of any other.
\<close>

definition string_elements :: "unicode \<Rightarrow> string \<Rightarrow> string list" where
  "string_elements uni s = (if ascii s then map (\<lambda>ch. [ch]) s else code_units uni s)"

text \<open>
  The property name of the element at index \<open>i\<close> of an array or a string: \<open>i\<close> in
  decimal digits, the last digit split off at each step.
\<close>

function index_key :: "nat \<Rightarrow> string" where
  "index_key i =
     (let last_digit = char_of (i mod 10 + 48)
      in if i div 10 = 0 then [last_digit] else index_key (i div 10) @ [last_digit])"
  by pat_completeness auto
termination
  by (relation "measure id") auto

text \<open>
  \<^verbatim>\<open>String(v)\<close>, the abstract operation ToString, on the values above. How a number
  prints (\<^verbatim>\<open>Number::toString\<close>) is a parameter \<open>ns\<close>: the program never looks inside it.

  An array prints as its elements joined by commas, undefined and null elements as the
  empty string. A plain object prints through its \<^verbatim>\<open>toString\<close> property: when the object
  has no own property of that name it inherits \<^verbatim>\<open>Object.prototype.toString\<close> and prints
  as \<^verbatim>\<open>[object Object]\<close>; when it has one, that property is data and not callable,
  \<^verbatim>\<open>valueOf\<close> (own or inherited) does not yield a primitive either, and the conversion
  throws a TypeError.
\<close>

fun ToString :: "(jsnumber \<Rightarrow> string) \<Rightarrow> jsvalue \<Rightarrow> exn + string"
  and Array_join :: "(jsnumber \<Rightarrow> string) \<Rightarrow> jsvalue list \<Rightarrow> exn + string"
where
  "ToString ns JUndefined = Inr ''undefined''"
| "ToString ns JNull = Inr ''null''"
| "ToString ns (JBool b) = Inr (if b then ''true'' else ''false'')"
| "ToString ns (JNumber n) = Inr (ns n)"
| "ToString ns (JString s) = Inr s"
| "ToString ns (JArray xs) = Array_join ns xs"
| "ToString ns (JObject kvs) =
     (if ''toString'' \<in> set (map fst kvs)
      then Inl (TypeError ''Cannot convert object to primitive value'')
      else Inr ''[object Object]'')"
| "Array_join ns [] = Inr []"
| "Array_join ns [x] = (if nullish x then Inr [] else ToString ns x)"
| "Array_join ns (x # y # ys) =
     try_bind (if nullish x then Inr [] else ToString ns x) (\<lambda>s.
     try_bind (Array_join ns (y # ys)) (\<lambda>t. Inr (s @ '','' @ t)))"

section \<open>The payment-intent handler\<close>

text \<open>\<^verbatim>\<open>const allowedCurrencies = new Set(['usd', 'cad', 'eur', 'gbp', 'aud']);\<close>\<close>

definition allowedCurrencies :: "string list" where
  "allowedCurrencies = [''usd'', ''cad'', ''eur'', ''gbp'', ''aud'']"

definition Set_has :: "string list \<Rightarrow> string \<Rightarrow> bool" where
  "Set_has xs x = List.member xs x"

text \<open>
  The argument of \<^verbatim>\<open>stripe.paymentIntents.create\<close> and the part of its result the
  handler reads.
\<close>

record create_params =
  amount :: jsvalue
  currency :: string
  automatic_payment_methods_enabled :: bool
  metadata :: "(string \<times> string) list"

record payment_intent =
  client_secret :: string

text \<open>What a handler sends, and what it leaves behind.\<close>

datatype resp_body = Json jsvalue | Text string

record http_response =
  status :: nat
  body :: resp_body

datatype log_arg = ArgExn exn | ArgValue jsvalue

datatype log_entry = console_error string log_arg | console_warn string log_arg

datatype handler_result = Responded http_response | Uncaught exn

record outcome =
  result :: handler_result
  processor_calls :: "create_params list"
  console :: "log_entry list"

text \<open>
  \<^verbatim>\<open>const { amountInCents, currency = 'usd', metadata = {} } = req.body;\<close>
  Destructuring undefined or null throws; a default applies when the property is
  undefined, and only then.
\<close>

definition destructure :: "jsvalue \<Rightarrow> exn + (jsvalue \<times> jsvalue \<times> jsvalue)" where
  "destructure b =
     try_bind (Get b ''amountInCents'') (\<lambda>a.
     try_bind (Get b ''currency'') (\<lambda>c.
     try_bind (Get b ''metadata'') (\<lambda>m.
       Inr (a,
            if c = JUndefined then JString ''usd'' else c,
            if m = JUndefined then JObject [] else m))))"

text \<open>\<^verbatim>\<open>String(currency).toLowerCase()\<close>\<close>

definition currency_lower :: "unicode \<Rightarrow> (jsnumber \<Rightarrow> string) \<Rightarrow> jsvalue \<Rightarrow> exn + string" where
  "currency_lower uni ns c = try_bind (ToString ns c) (\<lambda>s. Inr (toLowerCase uni s))"

text \<open>\<^verbatim>\<open>allowedCurrencies.has(String(currency).toLowerCase())\<close>\<close>

definition currency_check :: "unicode \<Rightarrow> (jsnumber \<Rightarrow> string) \<Rightarrow> jsvalue \<Rightarrow> exn + bool" where
  "currency_check uni ns c =
     try_bind (currency_lower uni ns c) (\<lambda>s. Inr (Set_has allowedCurrencies s))"

text \<open>
  \<^verbatim>\<open>Object.entries(v)\<close>: the own enumerable properties. An array has one per element
  and a string one per element, named by the index; a boolean and a number have none;
  undefined and null throw.
\<close>

fun Object_entries :: "unicode \<Rightarrow> jsvalue \<Rightarrow> exn + (string \<times> jsvalue) list" where
  "Object_entries uni JUndefined = Inl (TypeError ''Cannot convert undefined or null to object'')"
| "Object_entries uni JNull = Inl (TypeError ''Cannot convert undefined or null to object'')"
| "Object_entries uni (JBool b) = Inr []"
| "Object_entries uni (JNumber n) = Inr []"
| "Object_entries uni (JString s) =
     Inr (zip (map index_key [0 ..< length (string_elements uni s)])
              (map JString (string_elements uni s)))"
| "Object_entries uni (JArray xs) = Inr (zip (map index_key [0 ..< length xs]) xs)"
| "Object_entries uni (JObject kvs) = Inr kvs"

text \<open>\<^verbatim>\<open>.map(([k, v]) => [k, String(v)])\<close>, left to right; the first throw ends it.\<close>

fun map_String :: "(jsnumber \<Rightarrow> string) \<Rightarrow> (string \<times> jsvalue) list \<Rightarrow> exn + (string \<times> string) list" where
  "map_String ns [] = Inr []"
| "map_String ns ((k, v) # kvs) =
     try_bind (ToString ns v) (\<lambda>s.
     try_bind (map_String ns kvs) (\<lambda>r. Inr ((k, s) # r)))"

text \<open>
  \<^verbatim>\<open>Object.fromEntries(Object.entries(metadata || {}).map(...))\<close>. The entries come in
  enumeration order with distinct keys, so the object built from them has the same
  properties in the same order: \<^verbatim>\<open>Object.fromEntries\<close> is the identity on the list.
\<close>

definition metadata_strings ::
  "unicode \<Rightarrow> (jsnumber \<Rightarrow> string) \<Rightarrow> jsvalue \<Rightarrow> exn + (string \<times> string) list" where
  "metadata_strings uni ns m =
     try_bind (Object_entries uni (if ToBoolean m then m else JObject [])) (map_String ns)"

text \<open>
  The object literal passed to \<^verbatim>\<open>stripe.paymentIntents.create\<close>, its properties
  evaluated in the order they are written.
\<close>

definition create_args ::
  "unicode \<Rightarrow> (jsnumber \<Rightarrow> string) \<Rightarrow> jsvalue \<Rightarrow> jsvalue \<Rightarrow> jsvalue \<Rightarrow> exn + create_params" where
  "create_args uni ns a c m =
     try_bind (currency_lower uni ns c) (\<lambda>cur.
     try_bind (metadata_strings uni ns m) (\<lambda>md.
       Inr \<lparr>amount = a, currency = cur, automatic_payment_methods_enabled = True,
            metadata = md\<rparr>))"

definition respond :: "nat \<Rightarrow> resp_body \<Rightarrow> create_params list \<Rightarrow> log_entry list \<Rightarrow> outcome" where
  "respond st b calls lg =
     \<lparr>result = Responded \<lparr>status = st, body = b\<rparr>, processor_calls = calls, console = lg\<rparr>"

text \<open>
  \<^verbatim>\<open>catch (err) { console.error('create-payment-intent error:', err);
                  return res.status(500).json({ error: 'Server error' }); }\<close>
\<close>

definition catch_block :: "exn \<Rightarrow> create_params list \<Rightarrow> outcome" where
  "catch_block err calls =
     respond 500 (Json (JObject [(''error'', JString ''Server error'')])) calls
       [console_error ''create-payment-intent error:'' (ArgExn err)]"

text \<open>
  \<^verbatim>\<open>app.post('/create-payment-intent', async (req, res) => { try { ... } catch ... })\<close>
  The processor \<^verbatim>\<open>stripe.paymentIntents.create\<close> is the parameter \<open>create\<close>: it returns
  an intent or throws (a rejected promise, awaited inside the \<^verbatim>\<open>try\<close>). \<open>b\<close> is
  \<^verbatim>\<open>req.body\<close>.
\<close>

definition create_payment_intent ::
  "unicode \<Rightarrow> (jsnumber \<Rightarrow> string) \<Rightarrow> (create_params \<Rightarrow> exn + payment_intent) \<Rightarrow> jsvalue
   \<Rightarrow> outcome" where
  "create_payment_intent uni ns create b =
     (case destructure b of
        Inl err \<Rightarrow> catch_block err []
      | Inr (a, c, m) \<Rightarrow>
          if \<not> isValidAmount a then
            respond 400 (Json (JObject [(''error'', JString ''Invalid amount'')])) [] []
          else
            (case currency_check uni ns c of
               Inl err \<Rightarrow> catch_block err []
             | Inr supported \<Rightarrow>
                 if \<not> supported then
                   respond 400 (Json (JObject [(''error'', JString ''Unsupported currency'')])) [] []
                 else
                   (case create_args uni ns a c m of
                      Inl err \<Rightarrow> catch_block err []
                    | Inr p \<Rightarrow>
                        (case create p of
                           Inl err \<Rightarrow> catch_block err [p]
                         | Inr intent \<Rightarrow>
                             respond 200
                               (Json (JObject [(''clientSecret'', JString (client_secret intent))]))
                               [p] []))))"

section \<open>The webhook handler\<close>

text \<open>\<^verbatim>\<open>const pi = event.data.object;\<close>\<close>

definition event_data_object :: "jsvalue \<Rightarrow> exn + jsvalue" where
  "event_data_object event = try_bind (Get event ''data'') (\<lambda>d. Get d ''object'')"

text \<open>\<^verbatim>\<open>pi.last_payment_error?.message\<close>\<close>

definition last_payment_error_message :: "jsvalue \<Rightarrow> exn + jsvalue" where
  "last_payment_error_message pint =
     try_bind (Get pint ''last_payment_error'') (\<lambda>e.
       if nullish e then Inr JUndefined else Get e ''message'')"

text \<open>
  The \<^verbatim>\<open>switch (event.type)\<close> and the acknowledgement after it. Nothing catches an
  exception thrown here: it leaves the handler.
\<close>

definition uncaught :: "exn \<Rightarrow> outcome" where
  "uncaught err = \<lparr>result = Uncaught err, processor_calls = [], console = []\<rparr>"

definition dispatch :: "jsvalue \<Rightarrow> outcome" where
  "dispatch event =
     (let ack = respond 200 (Json (JObject [(''received'', JBool True)])) []
      in case Get event ''type'' of
           Inl err \<Rightarrow> uncaught err
         | Inr t \<Rightarrow>
             if t = JString ''payment_intent.succeeded'' then
               (case event_data_object event of
                  Inl err \<Rightarrow> uncaught err
                | Inr pint \<Rightarrow> ack [])
             else if t = JString ''payment_intent.payment_failed'' then
               (case event_data_object event of
                  Inl err \<Rightarrow> uncaught err
                | Inr pint \<Rightarrow>
                    (case last_payment_error_message pint of
                       Inl err \<Rightarrow> uncaught err
                     | Inr msg \<Rightarrow> ack [console_warn ''Payment failed:'' (ArgValue msg)]))
             else ack [])"

text \<open>
  \<^verbatim>\<open>endpointSecret ? stripe.webhooks.constructEvent(req.body, sig, endpointSecret)
                  : JSON.parse(req.body)\<close>
  The secret is an environment variable: absent, or a string, and the empty string is
  falsy. \<^verbatim>\<open>constructEvent\<close> and \<^verbatim>\<open>JSON.parse\<close> are parameters here, as is the type of
  \<^verbatim>\<open>req.body\<close>: what the body parsers make of a request comes in the next section.
  \<open>sig\<close> is the \<^verbatim>\<open>stripe-signature\<close> header, if any.
\<close>

definition secret_configured :: "string option \<Rightarrow> bool" where
  "secret_configured endpointSecret =
     (case endpointSecret of None \<Rightarrow> False | Some s \<Rightarrow> s \<noteq> [])"

definition obtain_event ::
  "('b \<Rightarrow> string option \<Rightarrow> string \<Rightarrow> exn + jsvalue) \<Rightarrow> ('b \<Rightarrow> exn + jsvalue) \<Rightarrow>
   string option \<Rightarrow> string option \<Rightarrow> 'b \<Rightarrow> exn + jsvalue" where
  "obtain_event constructEvent JSON_parse endpointSecret sig b =
     (case endpointSecret of
        None \<Rightarrow> JSON_parse b
      | Some s \<Rightarrow> if s \<noteq> [] then constructEvent b sig s else JSON_parse b)"

definition webhook ::
  "('b \<Rightarrow> string option \<Rightarrow> string \<Rightarrow> exn + jsvalue) \<Rightarrow> ('b \<Rightarrow> exn + jsvalue) \<Rightarrow>
   string option \<Rightarrow> string option \<Rightarrow> 'b \<Rightarrow> outcome" where
  "webhook constructEvent JSON_parse endpointSecret sig b =
     (case obtain_event constructEvent JSON_parse endpointSecret sig b of
        Inl err \<Rightarrow>
          respond 400 (Text (''Webhook Error: '' @ message err)) []
            [console_error ''Webhook signature verification failed.''
               (ArgValue (JString (message err)))]
      | Inr event \<Rightarrow> dispatch event)"

section \<open>The body parsers before the webhook handler\<close>

text \<open>
  \<^verbatim>\<open>app.use(express.json())\<close> (line 20) is mounted for every route, before
  \<^verbatim>\<open>app.post('/webhook', express.raw({ type: 'application/json' }), ...)\<close> (line 59). Both
  parsers read the body of the same requests: those that have a body whose
  \<^verbatim>\<open>Content-Type\<close> is \<^verbatim>\<open>application/json\<close>; \<open>json_typed\<close> says whether the request is one.
\<close>

record webhook_request =
  json_typed :: bool
  raw :: string
  stripe_signature :: "string option"

text \<open>
  \<^verbatim>\<open>req.body\<close> as the webhook handler can find it: the bytes \<^verbatim>\<open>express.raw\<close> stored, or a
  value.
\<close>

datatype req_body = Buffer string | Parsed jsvalue

text \<open>
  What the parsers take from outside the source: \<^verbatim>\<open>JSON.parse\<close> on a text, the
  SyntaxError \<^verbatim>\<open>express.json()\<close> builds for a text that starts with neither \<^verbatim>\<open>{\<close> nor
  \<^verbatim>\<open>[\<close>, and the \<^verbatim>\<open>req.body\<close> of a request no parser has read (an empty object in
  Express 4, undefined in Express 5).
\<close>

record body_parser =
  JSON_parse_text :: "string \<Rightarrow> exn + jsvalue"
  strict_violation :: "string \<Rightarrow> exn"
  unparsed_body :: jsvalue

text \<open>The first character of a text that is not a space, a tab, a line feed or a carriage return.\<close>

definition firstchar :: "string \<Rightarrow> char option" where
  "firstchar s =
     (case dropWhile (\<lambda>ch. ch \<in> set [CHR 0x20, CHR 0x09, CHR 0x0A, CHR 0x0D]) s of
        [] \<Rightarrow> None
      | ch # _ \<Rightarrow> Some ch)"

text \<open>
  \<^verbatim>\<open>express.json()\<close>, in its default strict mode. It skips a request that is not
  \<open>json_typed\<close>. Otherwise an empty body is the empty object; a text whose first
  character is neither \<^verbatim>\<open>{\<close> nor \<^verbatim>\<open>[\<close>, or that \<^verbatim>\<open>JSON.parse\<close> refuses, is an error handed
  to \<^verbatim>\<open>next(err)\<close>, which ends the request in Express's error handler with status 400 and
  without running the route; a text that parses becomes \<^verbatim>\<open>req.body\<close> and the request is
  marked as parsed (the second component).
\<close>

definition express_json :: "body_parser \<Rightarrow> webhook_request \<Rightarrow> exn + (jsvalue \<times> bool)" where
  "express_json bp rq =
     (if \<not> json_typed rq then Inr (unparsed_body bp, False)
      else if raw rq = [] then Inr (JObject [], True)
      else if firstchar (raw rq) \<noteq> Some CHR ''{'' \<and> firstchar (raw rq) \<noteq> Some CHR ''[''
        then Inl (strict_violation bp (raw rq))
      else (case JSON_parse_text bp (raw rq) of
              Inl err \<Rightarrow> Inl err
            | Inr v \<Rightarrow> Inr (v, True)))"

text \<open>
  \<^verbatim>\<open>express.raw({ type: 'application/json' })\<close> on the route. It skips a request that is
  marked as parsed, and one that is not \<open>json_typed\<close>; otherwise it stores the bytes.
\<close>

definition express_raw :: "webhook_request \<Rightarrow> jsvalue \<times> bool \<Rightarrow> req_body" where
  "express_raw rq st =
     (if snd st then Parsed (fst st)
      else if json_typed rq then Buffer (raw rq)
      else Parsed (fst st))"

text \<open>
  \<^verbatim>\<open>JSON.parse(req.body)\<close>: the argument is converted to a string first, a buffer to its
  text, a value by \<^verbatim>\<open>ToString\<close>.
\<close>

definition JSON_parse_body ::
  "body_parser \<Rightarrow> (jsnumber \<Rightarrow> string) \<Rightarrow> req_body \<Rightarrow> exn + jsvalue" where
  "JSON_parse_body bp ns b =
     (case b of
        Buffer s \<Rightarrow> JSON_parse_text bp s
      | Parsed v \<Rightarrow> try_bind (ToString ns v) (JSON_parse_text bp))"

text \<open>
  A request to \<^verbatim>\<open>POST /webhook\<close> after the CORS gate: \<^verbatim>\<open>express.json()\<close>, then
  \<^verbatim>\<open>express.raw\<close>, then the handler. \<open>Inl\<close> is an error handed to \<^verbatim>\<open>next(err)\<close> before
  the handler.
\<close>

definition webhook_route ::
  "(req_body \<Rightarrow> string option \<Rightarrow> string \<Rightarrow> exn + jsvalue) \<Rightarrow> body_parser \<Rightarrow>
   (jsnumber \<Rightarrow> string) \<Rightarrow> string option \<Rightarrow> webhook_request \<Rightarrow> exn + outcome" where
  "webhook_route constructEvent bp ns endpointSecret rq =
     (case express_json bp rq of
        Inl err \<Rightarrow> Inl err
      | Inr st \<Rightarrow>
          Inr (webhook constructEvent (JSON_parse_body bp ns) endpointSecret
                 (stripe_signature rq) (express_raw rq st)))"

section \<open>The CORS gate\<close>

text \<open>\<^verbatim>\<open>s.split(',')\<close>: the pieces between commas; the empty string gives one empty piece.\<close>

fun split_on :: "char \<Rightarrow> string \<Rightarrow> string list" where
  "split_on d [] = [[]]"
| "split_on d (c # cs) =
     (if c = d then [] # split_on d cs
      else (case split_on d cs of [] \<Rightarrow> [[c]] | w # ws \<Rightarrow> (c # w) # ws))"

text \<open>
  \<^verbatim>\<open>const allowed = (process.env.ALLOWED_ORIGINS || '').split(',').filter(Boolean);\<close>
\<close>

definition allowed_origins :: "string option \<Rightarrow> string list" where
  "allowed_origins env =
     filter (\<lambda>s. s \<noteq> [])
       (split_on CHR '','' (case env of None \<Rightarrow> [] | Some s \<Rightarrow> if s \<noteq> [] then s else []))"

text \<open>
  The \<^verbatim>\<open>origin\<close> callback given to \<^verbatim>\<open>cors\<close>. Its argument is the request's
  \<^verbatim>\<open>Origin\<close> header: undefined when the request has none, a string otherwise.
  \<^verbatim>\<open>if (!origin || allowed.length === 0 || allowed.includes(origin)) return cb(null, true);
   cb(new Error('Not allowed by CORS'));\<close>
\<close>

definition origin_truthy :: "string option \<Rightarrow> bool" where
  "origin_truthy origin = (case origin of None \<Rightarrow> False | Some s \<Rightarrow> s \<noteq> [])"

definition Array_includes :: "string list \<Rightarrow> string option \<Rightarrow> bool" where
  "Array_includes xs origin = (case origin of None \<Rightarrow> False | Some s \<Rightarrow> List.member xs s)"

definition cors_origin :: "string list \<Rightarrow> string option \<Rightarrow> exn + bool" where
  "cors_origin allowed origin =
     (if \<not> origin_truthy origin \<or> length allowed = 0 \<or> Array_includes allowed origin
      then Inr True
      else Inl (Exn ''Error'' ''Not allowed by CORS''))"

text \<open>
  \<^verbatim>\<open>app.use(cors({ origin: ... }))\<close> is the first middleware. When the callback reports
  an error, \<^verbatim>\<open>cors\<close> hands it to \<^verbatim>\<open>next(err)\<close> and no later middleware or handler runs;
  otherwise the request goes on to \<open>handler\<close>.
\<close>

definition cors_gate :: "string list \<Rightarrow> string option \<Rightarrow> outcome \<Rightarrow> exn + outcome" where
  "cors_gate allowed origin handler =
     (case cors_origin allowed origin of Inl err \<Rightarrow> Inl err | Inr _ \<Rightarrow> Inr handler)"

section \<open>Theorems\<close>

subsection \<open>Auxiliary facts\<close>

lemma try_bind_Inr_iff:
  "try_bind m f = Inr y \<longleftrightarrow> (\<exists>x. m = Inr x \<and> f x = Inr y)"
  by (cases m) (simp_all add: try_bind_def)

lemma map_String_values:
  "map_String ns kvs = Inr md \<Longrightarrow>
   list_all2 (\<lambda>kv ks. fst ks = fst kv \<and> ToString ns (snd kv) = Inr (snd ks)) kvs md"
proof (induction kvs arbitrary: md)
  case Nil
  then show ?case by simp
next
  case (Cons kv kvs)
  obtain k v where kv: "kv = (k, v)" by (cases kv)
  from Cons.prems obtain s r where s: "ToString ns v = Inr s"
    and r: "map_String ns kvs = Inr r" and md: "md = (k, s) # r"
    unfolding kv by (auto simp: try_bind_Inr_iff)
  from Cons.IH [OF r] s show ?case by (simp add: kv md)
qed


lemma dispatch_result:
  "result (dispatch ev) =
     Responded \<lparr>status = 200, body = Json (JObject [(''received'', JBool True)])\<rparr>
   \<or> (\<exists>err. result (dispatch ev) = Uncaught err)"
  by (simp add: dispatch_def respond_def uncaught_def Let_def split: sum.split)

text \<open>The allow-list never holds the empty string: \<^verbatim>\<open>filter(Boolean)\<close> drops it.\<close>

lemma allowed_origins_nonempty_elements: "[] \<notin> set (allowed_origins env)"
  by (simp add: allowed_origins_def)

text \<open>
  The lower case of a character, read off the two alphabets: the arithmetic on the
  character code in \<open>lower_char\<close> and the table agree on all 256 characters.
\<close>

lemma lower_char_table:
  "\<forall>ch. lower_char ch =
     (case map_of (zip ''ABCDEFGHIJKLMNOPQRSTUVWXYZ'' ''abcdefghijklmnopqrstuvwxyz'') ch of
        None \<Rightarrow> ch
      | Some l \<Rightarrow> l)"
  by code_simp

text \<open>
  The webhook handler alone, whatever \<^verbatim>\<open>req.body\<close> is: when the event cannot be obtained
  the handler answers 400 with the error's message and dispatches nothing, and when it is
  obtained the outcome is that of the dispatch.
\<close>

lemma webhook_handler_cases:
  "webhook constructEvent JSON_parse endpointSecret sig b =
     (case (if secret_configured endpointSecret
            then constructEvent b sig (the endpointSecret) else JSON_parse b) of
        Inl err \<Rightarrow>
          \<lparr>result = Responded
             \<lparr>status = 400, body = Text (''Webhook Error: '' @ message err)\<rparr>,
           processor_calls = [],
           console = [console_error ''Webhook signature verification failed.''
                        (ArgValue (JString (message err)))]\<rparr>
      | Inr event \<Rightarrow> dispatch event)"
  by (simp add: webhook_def obtain_event_def secret_configured_def respond_def
      split: option.split sum.split)

text \<open>
  After \<^verbatim>\<open>express.json()\<close> the route's \<^verbatim>\<open>express.raw\<close> never stores the bytes: a request
  whose body it would read has been read and marked already.
\<close>

lemma express_raw_after_json:
  "express_json bp rq = Inr st \<Longrightarrow> express_raw rq st = Parsed (fst st)"
  by (auto simp: express_json_def express_raw_def split: if_splits sum.splits)

subsection \<open>The claims\<close>

text \<open>
  C1, as the code has it. \<open>isValidAmount v\<close> is true if and only if \<open>v\<close> is a number
  whose value is an integer \<open>n\<close> with \<open>0 < n\<close> and \<open>n \<le> 50000000\<close>. Every other value (a
  non-number, a number with a fractional part, NaN, an infinity, zero, a negative number,
  a number above the ceiling) is rejected.
\<close>

theorem isValidAmount_iff:
  "isValidAmount v =
     (\<exists>n::int. v = JNumber (Finite (of_int n)) \<and> 0 < n \<and> n \<le> 50000000)"
proof (cases v)
  case (JNumber x)
  show ?thesis
  proof (cases x)
    case (Finite q)
    show ?thesis
    proof
      assume a: "isValidAmount v"
      with JNumber Finite have i: "of_int \<lfloor>q\<rfloor> = q" and p: "0 < q" and u: "q \<le> 50000000"
        by simp_all
      from i p have "0 < \<lfloor>q\<rfloor>" by (metis of_int_0_less_iff)
      moreover from i u have "\<lfloor>q\<rfloor> \<le> 50000000" by linarith
      moreover have "v = JNumber (Finite (of_int \<lfloor>q\<rfloor>))"
        by (simp only: JNumber Finite i)
      ultimately show "\<exists>n::int. v = JNumber (Finite (of_int n)) \<and> 0 < n \<and> n \<le> 50000000"
        by blast
    next
      assume "\<exists>n::int. v = JNumber (Finite (of_int n)) \<and> 0 < n \<and> n \<le> 50000000"
      then obtain n :: int where "v = JNumber (Finite (of_int n))" "0 < n" "n \<le> 50000000"
        by blast
      then show "isValidAmount v" by simp
    qed
  qed (use JNumber in simp_all)
qed simp_all

text \<open>
  One hundred million is an integer above zero and not above 500,000,000, and
  \<open>isValidAmount\<close> rejects it; so it does 500,000,000 itself, and 50,000,001.
\<close>

theorem isValidAmount_ceiling_counterexample:
  "(0::int) < 100000000 \<and> (100000000::int) \<le> 500000000
   \<and> \<not> isValidAmount (JNumber (Finite (of_int 100000000)))
   \<and> \<not> isValidAmount (JNumber (Finite (of_int 500000000)))
   \<and> \<not> isValidAmount (JNumber (Finite (of_int 50000001)))
   \<and> isValidAmount (JNumber (Finite (of_int 50000000)))"
  by simp

text \<open>
  C2. For a currency that is the string \<open>c\<close>, the handler's currency check
  \<^verbatim>\<open>allowedCurrencies.has(String(currency).toLowerCase())\<close> does not throw and is true
  exactly when the lower-cased \<open>c\<close> is one of usd, cad, eur, gbp, aud. The lower-cased
  \<open>c\<close> is, for a string of ASCII characters, \<open>c\<close> with each letter of the upper-case
  alphabet replaced by the letter at the same place of the lower-case alphabet and every
  other character kept; for any other string it is what the Unicode tables give.
\<close>

theorem currency_check_string:
  "currency_check uni ns (JString c) =
     Inr (toLowerCase uni c \<in> {''usd'', ''cad'', ''eur'', ''gbp'', ''aud''})
   \<and> (ascii c \<longrightarrow>
        toLowerCase uni c =
          map (\<lambda>ch. case map_of (zip ''ABCDEFGHIJKLMNOPQRSTUVWXYZ''
                                      ''abcdefghijklmnopqrstuvwxyz'') ch of
                      None \<Rightarrow> ch
                    | Some l \<Rightarrow> l) c)
   \<and> (\<not> ascii c \<longrightarrow> toLowerCase uni c = lower_case uni c)"
proof -
  have "currency_check uni ns (JString c) =
          Inr (toLowerCase uni c \<in> {''usd'', ''cad'', ''eur'', ''gbp'', ''aud''})"
    by (simp add: currency_check_def currency_lower_def try_bind_def Set_has_def
        allowedCurrencies_def)
  moreover have "map lower_char c =
          map (\<lambda>ch. case map_of (zip ''ABCDEFGHIJKLMNOPQRSTUVWXYZ''
                                      ''abcdefghijklmnopqrstuvwxyz'') ch of
                      None \<Rightarrow> ch
                    | Some l \<Rightarrow> l) c"
    using lower_char_table by (intro map_cong) (simp_all only:)
  ultimately show ?thesis by (simp add: toLowerCase_def)
qed

theorem currency_check_string_witness:
  "ascii ''USD''
   \<and> toLowerCase \<lparr>lower_case = (\<lambda>s. s), code_units = (\<lambda>s. [s])\<rparr> ''USD'' = ''usd''
   \<and> currency_check \<lparr>lower_case = (\<lambda>s. s), code_units = (\<lambda>s. [s])\<rparr> (\<lambda>n. ''0'')
       (JString ''USD'') = Inr True
   \<and> ascii ''Jpy''
   \<and> toLowerCase \<lparr>lower_case = (\<lambda>s. s), code_units = (\<lambda>s. [s])\<rparr> ''Jpy'' = ''jpy''
   \<and> currency_check \<lparr>lower_case = (\<lambda>s. s), code_units = (\<lambda>s. [s])\<rparr> (\<lambda>n. ''0'')
       (JString ''Jpy'') = Inr False
   \<and> \<not> ascii [CHR 0xC3, CHR 0x9C, CHR ''S'', CHR ''D'']
   \<and> currency_check
       \<lparr>lower_case = (\<lambda>s. if s = [CHR 0xC3, CHR 0x9C, CHR ''S'', CHR ''D'']
                            then [CHR 0xC3, CHR 0xBC, CHR ''s'', CHR ''d''] else s),
        code_units = (\<lambda>s. [s])\<rparr> (\<lambda>n. ''0'')
       (JString [CHR 0xC3, CHR 0x9C, CHR ''S'', CHR ''D'']) = Inr False"
proof -
  let ?U = "\<lparr>lower_case = (\<lambda>s::string. s), code_units = (\<lambda>s::string. [s])\<rparr>"
  let ?V = "\<lparr>lower_case = (\<lambda>s. if s = [CHR 0xC3, CHR 0x9C, CHR ''S'', CHR ''D'']
                               then [CHR 0xC3, CHR 0xBC, CHR ''s'', CHR ''d''] else s),
             code_units = (\<lambda>s::string. [s])\<rparr>"
  let ?ns = "\<lambda>n::jsnumber. ''0''"
  let ?x = "[CHR 0xC3, CHR 0x9C, CHR ''S'', CHR ''D'']"
  have a1: "ascii ''USD''" and a2: "ascii ''Jpy''" and a3: "\<not> ascii ?x"
    by (simp_all add: ascii_def)
  from currency_check_string [of ?U ?ns "''USD''"] a1
  have u: "toLowerCase ?U ''USD'' = ''usd''"
    and cu: "currency_check ?U ?ns (JString ''USD'') =
               Inr (toLowerCase ?U ''USD'' \<in> {''usd'', ''cad'', ''eur'', ''gbp'', ''aud''})"
    by simp_all
  from currency_check_string [of ?U ?ns "''Jpy''"] a2
  have j: "toLowerCase ?U ''Jpy'' = ''jpy''"
    and cj: "currency_check ?U ?ns (JString ''Jpy'') =
               Inr (toLowerCase ?U ''Jpy'' \<in> {''usd'', ''cad'', ''eur'', ''gbp'', ''aud''})"
    by simp_all
  from currency_check_string [of ?V ?ns ?x] a3
  have x: "toLowerCase ?V ?x = [CHR 0xC3, CHR 0xBC, CHR ''s'', CHR ''d'']"
    and cx: "currency_check ?V ?ns (JString ?x) =
               Inr (toLowerCase ?V ?x \<in> {''usd'', ''cad'', ''eur'', ''gbp'', ''aud''})"
    by simp_all
  from a1 a2 a3 u j cu cj cx show ?thesis
    by (simp add: x)
qed

text \<open>
  C3, as the handler has it. Let \<open>a\<close>, \<open>c\<close>, \<open>m\<close> be what the destructuring of the
  request body yields. If \<open>isValidAmount a\<close> is false, or it is true and the currency
  check evaluates to false, the handler responds 400 with \<open>{error: "Invalid amount"}\<close> in
  the first case and \<open>{error: "Unsupported currency"}\<close> in the second, the processor is
  not called, nothing is logged and nothing is retried.
\<close>

theorem create_payment_intent_rejects:
  assumes "destructure b = Inr (a, c, m)"
    and "\<not> isValidAmount a \<or> currency_check uni ns c = Inr False"
  shows "create_payment_intent uni ns create b =
           \<lparr>result = Responded
              \<lparr>status = 400,
               body = Json (JObject [(''error'',
                 JString (if isValidAmount a then ''Unsupported currency''
                          else ''Invalid amount''))])\<rparr>,
            processor_calls = [], console = []\<rparr>"
  using assms by (auto simp: create_payment_intent_def respond_def)

theorem create_payment_intent_rejects_witness:
  "create_payment_intent \<lparr>lower_case = (\<lambda>s. s), code_units = (\<lambda>s. [s])\<rparr> (\<lambda>n. ''0'')
     (\<lambda>p. Inr \<lparr>client_secret = ''cs''\<rparr>)
     (JObject [(''amountInCents'', JNumber (Finite (- 5)))]) =
     \<lparr>result = Responded
        \<lparr>status = 400, body = Json (JObject [(''error'', JString ''Invalid amount'')])\<rparr>,
      processor_calls = [], console = []\<rparr>
   \<and> create_payment_intent \<lparr>lower_case = (\<lambda>s. s), code_units = (\<lambda>s. [s])\<rparr> (\<lambda>n. ''0'')
     (\<lambda>p. Inr \<lparr>client_secret = ''cs''\<rparr>)
     (JObject [(''amountInCents'', JNumber (Finite 100000000)), (''currency'', JString ''jpy'')]) =
     \<lparr>result = Responded
        \<lparr>status = 400, body = Json (JObject [(''error'', JString ''Invalid amount'')])\<rparr>,
      processor_calls = [], console = []\<rparr>
   \<and> create_payment_intent \<lparr>lower_case = (\<lambda>s. s), code_units = (\<lambda>s. [s])\<rparr> (\<lambda>n. ''0'')
     (\<lambda>p. Inr \<lparr>client_secret = ''cs''\<rparr>)
     (JObject [(''amountInCents'', JNumber (Finite 1000)), (''currency'', JString ''jpy'')]) =
     \<lparr>result = Responded
        \<lparr>status = 400, body = Json (JObject [(''error'', JString ''Unsupported currency'')])\<rparr>,
      processor_calls = [], console = []\<rparr>"
proof -
  let ?U = "\<lparr>lower_case = (\<lambda>s::string. s), code_units = (\<lambda>s::string. [s])\<rparr>"
  let ?ns = "\<lambda>n::jsnumber. ''0''"
  let ?b1 = "JObject [(''amountInCents'', JNumber (Finite (- 5)))]"
  let ?b2 = "JObject [(''amountInCents'', JNumber (Finite 100000000)), (''currency'', JString ''jpy'')]"
  let ?b3 = "JObject [(''amountInCents'', JNumber (Finite 1000)), (''currency'', JString ''jpy'')]"
  have jpy: "currency_check ?U ?ns (JString ''jpy'') = Inr False"
    by (simp add: currency_check_def currency_lower_def try_bind_def Set_has_def
        allowedCurrencies_def toLowerCase_def ascii_def lower_char_def)
  have d1: "destructure ?b1 = Inr (JNumber (Finite (- 5)), JString ''usd'', JObject [])"
    by (simp add: destructure_def try_bind_def)
  have v1: "\<not> isValidAmount (JNumber (Finite (- 5)))
            \<or> currency_check ?U ?ns (JString ''usd'') = Inr False"
    by simp
  have d2: "destructure ?b2 = Inr (JNumber (Finite 100000000), JString ''jpy'', JObject [])"
    by (simp add: destructure_def try_bind_def)
  have v2: "\<not> isValidAmount (JNumber (Finite 100000000))
            \<or> currency_check ?U ?ns (JString ''jpy'') = Inr False"
    by simp
  have d3: "destructure ?b3 = Inr (JNumber (Finite 1000), JString ''jpy'', JObject [])"
    by (simp add: destructure_def try_bind_def)
  have v3: "\<not> isValidAmount (JNumber (Finite 1000))
            \<or> currency_check ?U ?ns (JString ''jpy'') = Inr False"
    using jpy by simp
  show ?thesis
    using create_payment_intent_rejects [OF d1 v1, of "\<lambda>p. Inr \<lparr>client_secret = ''cs''\<rparr>"]
      create_payment_intent_rejects [OF d2 v2, of "\<lambda>p. Inr \<lparr>client_secret = ''cs''\<rparr>"]
      create_payment_intent_rejects [OF d3 v3, of "\<lambda>p. Inr \<lparr>client_secret = ''cs''\<rparr>"]
    by simp
qed

text \<open>
  A currency whose conversion to a string throws: the amount is valid, the currency check
  does not yield true, and the response is 500 with \<open>{error: "Server error"}\<close>, not 400
  with \<open>{error: "Unsupported currency"}\<close>.
\<close>

theorem create_payment_intent_unsupported_counterexample:
  "destructure (JObject [(''amountInCents'', JNumber (Finite 1000)),
                         (''currency'', JObject [(''toString'', JNumber (Finite 1))])])
     = Inr (JNumber (Finite 1000), JObject [(''toString'', JNumber (Finite 1))], JObject [])
   \<and> isValidAmount (JNumber (Finite 1000))
   \<and> (\<forall>uni ns. currency_check uni ns (JObject [(''toString'', JNumber (Finite 1))]) \<noteq> Inr True)
   \<and> (\<forall>uni ns create.
        result (create_payment_intent uni ns create
          (JObject [(''amountInCents'', JNumber (Finite 1000)),
                    (''currency'', JObject [(''toString'', JNumber (Finite 1))])]))
        = Responded \<lparr>status = 500,
                     body = Json (JObject [(''error'', JString ''Server error'')])\<rparr>)"
  by (simp add: destructure_def create_payment_intent_def currency_check_def
      currency_lower_def try_bind_def catch_block_def respond_def)

text \<open>
  C4, as the handler has it. Let \<open>a\<close>, \<open>c\<close>, \<open>m\<close> be what the destructuring of the
  request body yields (\<open>c\<close> is \<open>"usd"\<close> when the body has no currency, \<open>m\<close> the empty
  object when it has no metadata). If \<open>a\<close> passes the amount validation, the currency's
  string form \<open>s\<close> lower-cases to an allowed code, and every metadata value converts to a
  string (\<open>md\<close> is the result of converting the entries \<open>kvs\<close>), then the processor is
  called exactly once, with the amount \<open>a\<close>, the currency \<open>s\<close> in lower case, the
  metadata \<open>md\<close> (the keys of \<open>kvs\<close>, each value its string form) and automatic payment
  methods enabled; and when that call returns an intent, the response is 200 with
  \<open>{clientSecret: intent.client_secret}\<close>.
\<close>

theorem create_payment_intent_calls_processor:
  assumes "destructure b = Inr (a, c, m)"
    and "isValidAmount a"
    and "ToString ns c = Inr s"
    and "toLowerCase uni s \<in> set allowedCurrencies"
    and "Object_entries uni (if ToBoolean m then m else JObject []) = Inr kvs"
    and "map_String ns kvs = Inr md"
  shows "(let p = \<lparr>amount = a, currency = toLowerCase uni s,
                   automatic_payment_methods_enabled = True, metadata = md\<rparr>
          in processor_calls (create_payment_intent uni ns create b) = [p]
             \<and> (\<forall>intent. create p = Inr intent \<longrightarrow>
                  create_payment_intent uni ns create b =
                    \<lparr>result = Responded
                       \<lparr>status = 200,
                        body = Json (JObject [(''clientSecret'',
                                 JString (client_secret intent))])\<rparr>,
                     processor_calls = [p], console = []\<rparr>))
         \<and> list_all2 (\<lambda>kv ks. fst ks = fst kv \<and> ToString ns (snd kv) = Inr (snd ks)) kvs md
         \<and> (Get b ''currency'' = Inr JUndefined \<longrightarrow> c = JString ''usd'')
         \<and> (Get b ''metadata'' = Inr JUndefined \<longrightarrow> m = JObject [] \<and> md = [])"
proof -
  let ?p = "\<lparr>amount = a, currency = toLowerCase uni s,
             automatic_payment_methods_enabled = True, metadata = md\<rparr>"
  have chk: "currency_check uni ns c = Inr True"
    using assms(3,4) by (simp add: currency_check_def currency_lower_def try_bind_def Set_has_def)
  have args: "create_args uni ns a c m = Inr ?p"
    using assms(3,5,6)
    by (simp add: create_args_def currency_lower_def metadata_strings_def try_bind_def)
  have run: "create_payment_intent uni ns create b =
               (case create ?p of Inl err \<Rightarrow> catch_block err [?p]
                | Inr intent \<Rightarrow>
                    respond 200 (Json (JObject [(''clientSecret'', JString (client_secret intent))]))
                      [?p] [])"
    using assms(1,2) chk args by (simp add: create_payment_intent_def)
  have calls: "processor_calls (create_payment_intent uni ns create b) = [?p]"
    unfolding run by (simp add: catch_block_def respond_def split: sum.split)
  have ok: "\<forall>intent. create ?p = Inr intent \<longrightarrow>
              create_payment_intent uni ns create b =
                \<lparr>result = Responded
                   \<lparr>status = 200,
                    body = Json (JObject [(''clientSecret'', JString (client_secret intent))])\<rparr>,
                 processor_calls = [?p], console = []\<rparr>"
    unfolding run by (simp add: respond_def)
  have vals: "list_all2 (\<lambda>kv ks. fst ks = fst kv \<and> ToString ns (snd kv) = Inr (snd ks)) kvs md"
    using assms(6) by (rule map_String_values)
  have dc: "Get b ''currency'' = Inr JUndefined \<longrightarrow> c = JString ''usd''"
    using assms(1) by (auto simp: destructure_def try_bind_Inr_iff)
  have dm: "Get b ''metadata'' = Inr JUndefined \<longrightarrow> m = JObject [] \<and> md = []"
    using assms(1,5,6) by (auto simp: destructure_def try_bind_Inr_iff)
  from calls ok vals dc dm show ?thesis by (simp add: Let_def)
qed

theorem create_payment_intent_calls_processor_witness:
  "create_payment_intent \<lparr>lower_case = (\<lambda>s. s), code_units = (\<lambda>s. [s])\<rparr> (\<lambda>n. ''42'')
     (\<lambda>p. Inr \<lparr>client_secret = ''pi_1_secret_2''\<rparr>)
     (JObject [(''amountInCents'', JNumber (Finite 2500)), (''currency'', JString ''USD''),
               (''metadata'', JObject [(''orderId'', JNumber (Finite 42)), (''gift'', JBool True)])])
   = \<lparr>result = Responded
        \<lparr>status = 200,
         body = Json (JObject [(''clientSecret'', JString ''pi_1_secret_2'')])\<rparr>,
      processor_calls =
        [\<lparr>amount = JNumber (Finite 2500), currency = ''usd'',
          automatic_payment_methods_enabled = True,
          metadata = [(''orderId'', ''42''), (''gift'', ''true'')]\<rparr>],
      console = []\<rparr>"
proof -
  let ?U = "\<lparr>lower_case = (\<lambda>s::string. s), code_units = (\<lambda>s::string. [s])\<rparr>"
  let ?ns = "\<lambda>n::jsnumber. ''42''"
  let ?m = "JObject [(''orderId'', JNumber (Finite 42)), (''gift'', JBool True)]"
  let ?b = "JObject [(''amountInCents'', JNumber (Finite 2500)), (''currency'', JString ''USD''),
                     (''metadata'', ?m)]"
  have d: "destructure ?b = Inr (JNumber (Finite 2500), JString ''USD'', ?m)"
    by (simp add: destructure_def try_bind_def)
  have v: "isValidAmount (JNumber (Finite 2500))" by simp
  have s: "ToString ?ns (JString ''USD'') = Inr ''USD''" by simp
  have lc: "toLowerCase ?U ''USD'' = ''usd''" by code_simp
  have l: "toLowerCase ?U ''USD'' \<in> set allowedCurrencies"
    by (simp add: lc allowedCurrencies_def)
  have e: "Object_entries ?U (if ToBoolean ?m then ?m else JObject []) =
             Inr [(''orderId'', JNumber (Finite 42)), (''gift'', JBool True)]"
    by simp
  have ms: "map_String ?ns [(''orderId'', JNumber (Finite 42)), (''gift'', JBool True)] =
              Inr [(''orderId'', ''42''), (''gift'', ''true'')]"
    by (simp add: try_bind_def)
  show ?thesis
    using create_payment_intent_calls_processor [OF d v s l e ms,
        of "\<lambda>p. Inr \<lparr>client_secret = ''pi_1_secret_2''\<rparr>"]
    by (simp add: Let_def lc)
qed

text \<open>
  A metadata value whose conversion to a string throws: amount and currency pass their
  validations, the processor is never called and the response is 500.
\<close>

theorem create_payment_intent_metadata_counterexample:
  "destructure (JObject [(''amountInCents'', JNumber (Finite 1000)),
      (''metadata'', JObject [(''k'', JObject [(''toString'', JNumber (Finite 1))])])])
     = Inr (JNumber (Finite 1000), JString ''usd'',
            JObject [(''k'', JObject [(''toString'', JNumber (Finite 1))])])
   \<and> isValidAmount (JNumber (Finite 1000))
   \<and> (\<forall>uni ns. currency_check uni ns (JString ''usd'') = Inr True)
   \<and> (\<forall>uni ns create.
        create_payment_intent uni ns create
          (JObject [(''amountInCents'', JNumber (Finite 1000)),
             (''metadata'', JObject [(''k'', JObject [(''toString'', JNumber (Finite 1))])])])
        = \<lparr>result = Responded \<lparr>status = 500,
                     body = Json (JObject [(''error'', JString ''Server error'')])\<rparr>,
            processor_calls = [],
            console = [console_error ''create-payment-intent error:''
                        (ArgExn (TypeError ''Cannot convert object to primitive value''))]\<rparr>)"
  by (simp add: destructure_def create_payment_intent_def currency_check_def
      currency_lower_def create_args_def metadata_strings_def try_bind_def catch_block_def
      respond_def Set_has_def allowedCurrencies_def toLowerCase_def ascii_def lower_char_def)

text \<open>
  C5. Whenever the handler has called the processor, with the argument \<open>p\<close>, and the call
  threw the exception \<open>err\<close>, the handler logs \<open>err\<close> and responds 500 with exactly
  \<open>{error: "Server error"}\<close>: the response is the same whatever \<open>err\<close> is.
\<close>

theorem create_payment_intent_processor_throws:
  assumes "processor_calls (create_payment_intent uni ns create b) = [p]"
    and "create p = Inl err"
  shows "create_payment_intent uni ns create b =
           \<lparr>result = Responded
              \<lparr>status = 500, body = Json (JObject [(''error'', JString ''Server error'')])\<rparr>,
            processor_calls = [p],
            console = [console_error ''create-payment-intent error:'' (ArgExn err)]\<rparr>"
  using assms
  by (auto simp: create_payment_intent_def catch_block_def respond_def
      split: sum.splits if_splits)

theorem create_payment_intent_processor_throws_witness:
  "create_payment_intent \<lparr>lower_case = (\<lambda>s. s), code_units = (\<lambda>s. [s])\<rparr>
     (\<lambda>n. ''0'')
     (\<lambda>p. Inl (Exn ''StripeAuthenticationError'' ''Invalid API Key provided: sk_test_123''))
     (JObject [(''amountInCents'', JNumber (Finite 2500))])
   = \<lparr>result = Responded
        \<lparr>status = 500, body = Json (JObject [(''error'', JString ''Server error'')])\<rparr>,
      processor_calls =
        [\<lparr>amount = JNumber (Finite 2500), currency = ''usd'',
          automatic_payment_methods_enabled = True, metadata = []\<rparr>],
      console = [console_error ''create-payment-intent error:''
        (ArgExn (Exn ''StripeAuthenticationError'' ''Invalid API Key provided: sk_test_123''))]\<rparr>"
proof -
  let ?U = "\<lparr>lower_case = (\<lambda>s::string. s), code_units = (\<lambda>s::string. [s])\<rparr>"
  let ?create = "\<lambda>p::create_params.
     (Inl (Exn ''StripeAuthenticationError'' ''Invalid API Key provided: sk_test_123'')
        :: exn + payment_intent)"
  let ?p = "\<lparr>amount = JNumber (Finite 2500), currency = ''usd'',
             automatic_payment_methods_enabled = True, metadata = []\<rparr>"
  have c: "processor_calls (create_payment_intent ?U (\<lambda>n. ''0'') ?create
             (JObject [(''amountInCents'', JNumber (Finite 2500))])) = [?p]"
    by (simp add: destructure_def create_payment_intent_def currency_check_def
      currency_lower_def create_args_def metadata_strings_def try_bind_def catch_block_def
      respond_def Set_has_def allowedCurrencies_def toLowerCase_def ascii_def lower_char_def)
  have t: "?create ?p = Inl (Exn ''StripeAuthenticationError'' ''Invalid API Key provided: sk_test_123'')"
    by simp
  show ?thesis
    using create_payment_intent_processor_throws [OF c t] by simp
qed

text \<open>
  C9. The amount is checked before the currency: when the amount fails its validation
  and the currency check does not succeed either, the response is 400 with
  \<open>{error: "Invalid amount"}\<close>, not \<open>"Unsupported currency"\<close>.
\<close>

theorem create_payment_intent_amount_first:
  assumes "destructure b = Inr (a, c, m)"
    and "\<not> isValidAmount a"
    and "currency_check uni ns c \<noteq> Inr True"
  shows "result (create_payment_intent uni ns create b) =
           Responded \<lparr>status = 400,
                      body = Json (JObject [(''error'', JString ''Invalid amount'')])\<rparr>"
  using assms(1,2) by (simp add: create_payment_intent_def respond_def)

theorem create_payment_intent_amount_first_witness:
  "result (create_payment_intent \<lparr>lower_case = (\<lambda>s. s), code_units = (\<lambda>s. [s])\<rparr>
     (\<lambda>n. ''0'') (\<lambda>p. Inr \<lparr>client_secret = ''cs''\<rparr>)
     (JObject [(''amountInCents'', JNumber (Finite 100000000)), (''currency'', JString ''jpy'')])) =
     Responded \<lparr>status = 400,
                body = Json (JObject [(''error'', JString ''Invalid amount'')])\<rparr>"
proof -
  let ?U = "\<lparr>lower_case = (\<lambda>s::string. s), code_units = (\<lambda>s::string. [s])\<rparr>"
  let ?b = "JObject [(''amountInCents'', JNumber (Finite 100000000)), (''currency'', JString ''jpy'')]"
  have d: "destructure ?b = Inr (JNumber (Finite 100000000), JString ''jpy'', JObject [])"
    by (simp add: destructure_def try_bind_def)
  have v: "\<not> isValidAmount (JNumber (Finite 100000000))" by simp
  have u: "currency_check ?U (\<lambda>n. ''0'') (JString ''jpy'') \<noteq> Inr True"
    by (simp add: currency_check_def currency_lower_def try_bind_def Set_has_def
        allowedCurrencies_def toLowerCase_def ascii_def lower_char_def)
  show ?thesis
    using create_payment_intent_amount_first [OF d v u] by simp
qed

text \<open>
  C6, on the server. With a signing secret configured (a non-empty string \<open>secret\<close>), a
  request that gets past \<^verbatim>\<open>express.json()\<close> has its signature verified by
  \<open>constructEvent\<close>, and by nothing else; when verification throws, the handler
  answers 400 with the text \<open>Webhook Error: \<close> followed by the error's message and
  dispatches nothing, and when it returns an event the outcome is that of dispatching it.
  But what \<open>constructEvent\<close> is given is never the raw body \<open>Buffer (raw rq)\<close>: it is the
  value \<open>v\<close> that \<^verbatim>\<open>express.json()\<close> left in \<^verbatim>\<open>req.body\<close>, the parsed body of a request
  with a JSON body and the default of any other.
\<close>

theorem webhook_route_verifies_parsed_body:
  assumes "secret \<noteq> []"
  shows "webhook_route constructEvent bp ns (Some secret) rq =
           (case express_json bp rq of
              Inl err \<Rightarrow> Inl err
            | Inr (v, parsed) \<Rightarrow>
                Inr (case constructEvent (Parsed v) (stripe_signature rq) secret of
                       Inl err \<Rightarrow>
                         \<lparr>result = Responded
                            \<lparr>status = 400, body = Text (''Webhook Error: '' @ message err)\<rparr>,
                          processor_calls = [],
                          console = [console_error ''Webhook signature verification failed.''
                                       (ArgValue (JString (message err)))]\<rparr>
                     | Inr event \<Rightarrow> dispatch event))"
proof (cases "express_json bp rq")
  case (Inl err)
  then show ?thesis by (simp add: webhook_route_def)
next
  case (Inr st)
  obtain v parsed where st: "st = (v, parsed)" by (cases st)
  from Inr have "express_raw rq st = Parsed v"
    by (simp add: express_raw_after_json st)
  with Inr assms show ?thesis
    by (simp add: webhook_route_def webhook_handler_cases secret_configured_def st)
qed

text \<open>
  A webhook with the body \<^verbatim>\<open>{}\<close> and the signature that is right for these bytes
  under the secret: a verification routine that accepts exactly the signed bytes is
  given the parsed object instead and refuses it, and the request is answered 400.
\<close>

theorem webhook_route_verifies_parsed_body_witness:
  "''whsec_1'' \<noteq> []
   \<and> webhook_route
       (\<lambda>b sig secret.
          if b = Buffer ''{}'' \<and> sig = Some ''t=1,v1=5257a8'' \<and> secret = ''whsec_1''
          then Inr (JObject [])
          else Inl (Exn ''StripeSignatureVerificationError''
                 ''No signatures found matching the expected signature for payload.''))
       \<lparr>JSON_parse_text = (\<lambda>s. if s = ''{}'' then Inr (JObject [])
                                else Inl (Exn ''SyntaxError'' ''Unexpected token'')),
        strict_violation = (\<lambda>s. Exn ''SyntaxError'' ''Unexpected token''),
        unparsed_body = JObject []\<rparr>
       (\<lambda>n. ''0'') (Some ''whsec_1'')
       \<lparr>json_typed = True, raw = ''{}'', stripe_signature = Some ''t=1,v1=5257a8''\<rparr>
     = Inr \<lparr>result = Responded
              \<lparr>status = 400,
               body = Text (''Webhook Error: '' @
                 ''No signatures found matching the expected signature for payload.'')\<rparr>,
            processor_calls = [],
            console = [console_error ''Webhook signature verification failed.''
              (ArgValue (JString
                 ''No signatures found matching the expected signature for payload.''))]\<rparr>"
proof -
  let ?ce = "\<lambda>b sig secret.
          if b = Buffer ''{}'' \<and> sig = Some ''t=1,v1=5257a8'' \<and> secret = ''whsec_1''
          then Inr (JObject [])
          else Inl (Exn ''StripeSignatureVerificationError''
                 ''No signatures found matching the expected signature for payload.'')"
  let ?bp = "\<lparr>JSON_parse_text = (\<lambda>s. if s = ''{}'' then Inr (JObject [])
                                else Inl (Exn ''SyntaxError'' ''Unexpected token'')),
        strict_violation = (\<lambda>s. Exn ''SyntaxError'' ''Unexpected token''),
        unparsed_body = JObject []\<rparr>"
  let ?rq = "\<lparr>json_typed = True, raw = ''{}'', stripe_signature = Some ''t=1,v1=5257a8''\<rparr>"
  have s: "''whsec_1'' \<noteq> []" by simp
  have j: "express_json ?bp ?rq = Inr (JObject [], True)"
    by (simp add: express_json_def firstchar_def)
  show ?thesis
    using webhook_route_verifies_parsed_body [OF s, of ?ce ?bp "\<lambda>n. ''0''" ?rq]
    by (simp add: j)
qed

text \<open>
  C10, on the server. A webhook request with a JSON body that is not valid JSON
  (\<^verbatim>\<open>JSON.parse\<close> throws \<open>err\<close> on the text) never reaches the handler, with or without a
  signing secret: \<^verbatim>\<open>express.json()\<close> hands the request to \<^verbatim>\<open>next(err)\<close>, with \<open>err\<close> when
  the text starts with \<^verbatim>\<open>{\<close> or \<^verbatim>\<open>[\<close> and with its own error otherwise. The handler's
  \<^verbatim>\<open>catch\<close>, which would answer \<open>Webhook Error: \<close> and the message, does not run.
\<close>

theorem webhook_route_malformed_json:
  assumes "json_typed rq"
    and "raw rq \<noteq> []"
    and "JSON_parse_text bp (raw rq) = Inl err"
  shows "webhook_route constructEvent bp ns endpointSecret rq =
           Inl (if firstchar (raw rq) = Some CHR ''{'' \<or> firstchar (raw rq) = Some CHR ''[''
                then err else strict_violation bp (raw rq))"
  using assms by (auto simp: webhook_route_def express_json_def)

theorem webhook_route_malformed_json_witness:
  "webhook_route (\<lambda>b sig secret. Inl (Exn ''Error'' ''unused''))
     \<lparr>JSON_parse_text = (\<lambda>s. if s = ''{}'' then Inr (JObject [])
                              else Inl (Exn ''SyntaxError'' ''Unexpected token o in JSON at position 1'')),
      strict_violation = (\<lambda>s. Exn ''SyntaxError'' ''Unexpected token n in JSON at position 0''),
      unparsed_body = JObject []\<rparr>
     (\<lambda>n. ''0'') None
     \<lparr>json_typed = True, raw = ''not json'', stripe_signature = None\<rparr>
   = Inl (Exn ''SyntaxError'' ''Unexpected token n in JSON at position 0'')"
proof -
  let ?bp = "\<lparr>JSON_parse_text = (\<lambda>s. if s = ''{}'' then Inr (JObject [])
                              else Inl (Exn ''SyntaxError'' ''Unexpected token o in JSON at position 1'')),
      strict_violation = (\<lambda>s. Exn ''SyntaxError'' ''Unexpected token n in JSON at position 0''),
      unparsed_body = JObject []\<rparr>"
  let ?rq = "\<lparr>json_typed = True, raw = ''not json'', stripe_signature = None\<rparr>"
  have t: "json_typed ?rq" by simp
  have r: "raw ?rq \<noteq> []" by simp
  have p: "JSON_parse_text ?bp (raw ?rq) =
             Inl (Exn ''SyntaxError'' ''Unexpected token o in JSON at position 1'')"
    by simp
  have f: "firstchar ''not json'' = Some CHR ''n''"
    by (simp add: firstchar_def)
  show ?thesis
    using webhook_route_malformed_json [OF t r p,
        of "\<lambda>b sig secret. Inl (Exn ''Error'' ''unused'')" "\<lambda>n. ''0''" None]
    by (simp add: f)
qed




text \<open>
  C8, as the gate has it. The origin callback permits the request if and only if the
  request has no Origin header or an empty one, or the allow-list is empty, or the origin
  is a member of the allow-list. Every other request is rejected with the error
  \<open>Not allowed by CORS\<close>, and then the gate yields that error whatever the handler would
  have done; a permitted request goes on to the handler.
\<close>

theorem cors_gate_permits_iff:
  "cors_origin allowed origin =
     (if origin = None \<or> origin = Some [] \<or> allowed = []
         \<or> (\<exists>s. origin = Some s \<and> s \<in> set allowed)
      then Inr True else Inl (Exn ''Error'' ''Not allowed by CORS''))
   \<and> cors_gate allowed origin handler =
     (if origin = None \<or> origin = Some [] \<or> allowed = []
         \<or> (\<exists>s. origin = Some s \<and> s \<in> set allowed)
      then Inr handler else Inl (Exn ''Error'' ''Not allowed by CORS''))"
  by (cases origin)
     (auto simp: cors_gate_def cors_origin_def origin_truthy_def Array_includes_def)

theorem cors_gate_permits_iff_witness:
  "cors_origin [''https://a.example''] (Some ''https://evil.example'') =
     Inl (Exn ''Error'' ''Not allowed by CORS'')
   \<and> cors_gate [''https://a.example''] (Some ''https://evil.example'')
       \<lparr>result = Responded \<lparr>status = 200, body = Text ''Stripe backend OK''\<rparr>,
        processor_calls = [], console = []\<rparr> =
     Inl (Exn ''Error'' ''Not allowed by CORS'')"
  using cors_gate_permits_iff [of "[''https://a.example'']" "Some ''https://evil.example''"
      "\<lparr>result = Responded \<lparr>status = 200, body = Text ''Stripe backend OK''\<rparr>,
        processor_calls = [], console = []\<rparr>"]
  by simp

text \<open>
  A request whose Origin header is present and empty is permitted, although the
  allow-list read from \<^verbatim>\<open>ALLOWED_ORIGINS=https://a.example\<close> is not empty and does not
  hold the empty string.
\<close>

theorem cors_gate_empty_origin_counterexample:
  "cors_origin (allowed_origins (Some ''https://a.example'')) (Some '''') = Inr True
   \<and> Some '''' \<noteq> (None :: string option)
   \<and> allowed_origins (Some ''https://a.example'') \<noteq> []
   \<and> '''' \<notin> set (allowed_origins (Some ''https://a.example''))"
proof -
  have a: "allowed_origins (Some ''https://a.example'') = [''https://a.example'']"
    by code_simp
  show ?thesis
    by (simp add: a cors_origin_def origin_truthy_def)
qed

end
